theory Spec2Isabelle
  imports Main "HOL-Library.Sublist"
begin

section \<open>Data model (types/users.ts)\<close>

text \<open>
  \<^verbatim>\<open>Role = "student" | "teacher" | "sensor"\<close> and \<^verbatim>\<open>UserObject\<close>. An ObjectId is a
  natural number, a Date a number of milliseconds. An optional field is an option;
  \<^verbatim>\<open>authentication_key?: string | null\<close> is \<open>None\<close> when it is null or absent. The
  field \<^verbatim>\<open>_id\<close> is written \<open>doc_id\<close>.
\<close>

datatype Role = Student | Teacher | Sensor

type_synonym AllowedRoles = "Role list"

record UserObject =
  doc_id :: "nat option"
  email :: string
  password :: string
  role :: Role
  authentication_key :: "string option"
  creation_date :: "nat option"
  last_login :: "nat option"

record LoginRequestBody =
  l_email :: string
  l_password :: string

section \<open>External collaborators\<close>

text \<open>
  bcryptjs is a parameter of the controllers: the three functions the code calls.
\<close>

record bcrypt =
  bcrypt_hashSync :: "string \<Rightarrow> string"
  bcrypt_hash :: "string \<Rightarrow> nat \<Rightarrow> string"
  bcrypt_compare :: "string \<Rightarrow> string \<Rightarrow> bool"

text \<open>
  What the surroundings answer during one request: whether the driver's read
  (\<^verbatim>\<open>findOne\<close>) or write (\<^verbatim>\<open>insertOne\<close>, \<^verbatim>\<open>replaceOne\<close>) rejects, the
  string \<^verbatim>\<open>uuid4()\<close> returns, the clock \<^verbatim>\<open>new Date()\<close>, and the ObjectId the
  driver generates.
\<close>

record env =
  find_fails :: bool
  write_fails :: bool
  uuid4 :: string
  now :: nat
  new_id :: nat

datatype error = StoreFailure | Rejected string

text \<open>
  The \<^verbatim>\<open>users\<close> collection is the list of its documents in natural order.
  \<^verbatim>\<open>findOne\<close> returns the first document that matches, or null.
\<close>

definition findOne :: "env \<Rightarrow> (UserObject \<Rightarrow> bool) \<Rightarrow> UserObject list \<Rightarrow> error + UserObject option" where
  "findOne e p docs = (if find_fails e then Inl StoreFailure else Inr (find p docs))"

text \<open>
  \<^verbatim>\<open>insertOne\<close> gives the document its \<^verbatim>\<open>_id\<close>; the collection's unique index
  on \<^verbatim>\<open>_id\<close> refuses an identifier that is already there.
\<close>

definition insertOne :: "env \<Rightarrow> UserObject \<Rightarrow> UserObject list \<Rightarrow> error + (UserObject list \<times> nat)" where
  "insertOne e doc docs =
     (if write_fails e \<or> Some (new_id e) \<in> set (map doc_id docs) then Inl StoreFailure
      else Inr (docs @ [doc\<lparr>doc_id := Some (new_id e)\<rparr>], new_id e))"

text \<open>
  \<^verbatim>\<open>replaceOne({ _id: k }, replacement)\<close> replaces the first document whose
  \<^verbatim>\<open>_id\<close> is \<open>k\<close>; the document keeps its \<^verbatim>\<open>_id\<close>. The result carries
  \<^verbatim>\<open>matchedCount\<close>.
\<close>

fun replace_first :: "nat \<Rightarrow> UserObject \<Rightarrow> UserObject list \<Rightarrow> UserObject list" where
  "replace_first k new [] = []"
| "replace_first k new (d # ds) =
     (if doc_id d = Some k then new\<lparr>doc_id := Some k\<rparr> # ds else d # replace_first k new ds)"

definition replaceOne :: "env \<Rightarrow> nat \<Rightarrow> UserObject \<Rightarrow> UserObject list \<Rightarrow> error + (UserObject list \<times> nat)" where
  "replaceOne e k new docs =
     (if write_fails e then Inl StoreFailure
      else Inr (replace_first k new docs,
                if find (\<lambda>d. doc_id d = Some k) docs = None then 0 else 1))"

text \<open>\<^verbatim>\<open>new ObjectId(x)\<close>: the identifier itself, a newly generated one when \<open>x\<close> is undefined.\<close>

definition ObjectId :: "env \<Rightarrow> nat option \<Rightarrow> nat" where
  "ObjectId e x = (case x of Some k \<Rightarrow> k | None \<Rightarrow> new_id e)"

section \<open>models/user.ts\<close>

definition getByEmail :: "env \<Rightarrow> string \<Rightarrow> UserObject list \<Rightarrow> error + UserObject option" where
  "getByEmail e mail docs =
     (case findOne e (\<lambda>d. email d = mail) docs of
        Inl err \<Rightarrow> Inl (Rejected (''user not found with email: '' @ mail))
      | Inr user \<Rightarrow> Inr user)"

definition getByAuthenticationKey :: "env \<Rightarrow> string \<Rightarrow> UserObject list \<Rightarrow> error + UserObject option" where
  "getByAuthenticationKey e key docs = findOne e (\<lambda>d. authentication_key d = Some key) docs"

definition create :: "env \<Rightarrow> UserObject \<Rightarrow> UserObject list \<Rightarrow> error + (UserObject list \<times> nat)" where
  "create e user docs = insertOne e (user\<lparr>doc_id := None\<rparr>) docs"

definition update :: "env \<Rightarrow> UserObject \<Rightarrow> UserObject list \<Rightarrow> error + (UserObject list \<times> nat)" where
  "update e user docs = replaceOne e (ObjectId e (doc_id user)) (user\<lparr>doc_id := None\<rparr>) docs"

definition updateUser :: "env \<Rightarrow> nat \<Rightarrow> UserObject \<Rightarrow> UserObject list \<Rightarrow> error + (UserObject list \<times> nat)" where
  "updateUser e k user docs = replaceOne e k (user\<lparr>doc_id := None\<rparr>) docs"

section \<open>HTTP responses\<close>

datatype json = Num nat | Str string | Obj "(string \<times> json) list"

record response =
  status :: nat
  body :: "(string \<times> json) list"

definition json_reply :: "nat \<Rightarrow> string \<Rightarrow> response" where
  "json_reply st msg = \<lparr>status = st, body = [(''status'', Num st), (''message'', Str msg)]\<rparr>"

section \<open>middleware/auth.ts\<close>

text \<open>
  The middleware that the routes import as \<^verbatim>\<open>../middleware/auth.js\<close>.
  The guard either calls \<^verbatim>\<open>next()\<close> or answers itself. The header
  \<^verbatim>\<open>X-AUTH-KEY\<close> is absent (\<open>None\<close>) or a string; the empty string is falsy.
\<close>

datatype outcome = Next | Respond response

definition auth :: "AllowedRoles \<Rightarrow> env \<Rightarrow> string option \<Rightarrow> UserObject list \<Rightarrow> outcome" where
  "auth allowed_roles e header docs =
     (case header of
        None \<Rightarrow> Respond (json_reply 401 ''Authentication key missing'')
      | Some authenticationKey \<Rightarrow>
          if authenticationKey = [] then Respond (json_reply 401 ''Authentication key missing'')
          else (case getByAuthenticationKey e authenticationKey docs of
                  Inl err \<Rightarrow> Respond (json_reply 401 ''Authentication key invalid'')
                | Inr None \<Rightarrow> Respond (json_reply 403 ''Access forbidden'')
                | Inr (Some user) \<Rightarrow>
                    if role user \<in> set allowed_roles then Next
                    else Respond (json_reply 403 ''Access forbidden'')))"

section \<open>controllers/auth.ts\<close>

definition loginUser :: "bcrypt \<Rightarrow> env \<Rightarrow> LoginRequestBody option \<Rightarrow> UserObject list \<Rightarrow> UserObject list \<times> response" where
  "loginUser bc e req_body docs =
     (case req_body of
        None \<Rightarrow> (docs, json_reply 400 ''Invalid request body'')
      | Some loginData \<Rightarrow>
          (case getByEmail e (l_email loginData) docs of
             Inl err \<Rightarrow> (docs, json_reply 500 ''Login failed'')
           | Inr None \<Rightarrow> (docs, json_reply 401 ''Invalid credentials'')
           | Inr (Some user) \<Rightarrow>
               if \<not> bcrypt_compare bc (l_password loginData) (password user)
               then (docs, json_reply 401 ''Invalid password'')
               else
                 (case update e (user\<lparr>authentication_key := Some (uuid4 e), last_login := Some (now e)\<rparr>) docs of
                    Inl err \<Rightarrow> (docs, json_reply 500 ''Login failed'')
                  | Inr (docs', result) \<Rightarrow>
                      (docs', \<lparr>status = 200,
                               body = [(''status'', Num 200), (''message'', Str ''User logged in''),
                                       (''authenticationKey'', Str (uuid4 e))]\<rparr>))))"

definition logoutUser :: "env \<Rightarrow> string \<Rightarrow> UserObject list \<Rightarrow> UserObject list \<times> response" where
  "logoutUser e authenticationKey docs =
     (case getByAuthenticationKey e authenticationKey docs of
        Inl err \<Rightarrow> (docs, json_reply 500 ''Failed to logout user.'')
      | Inr None \<Rightarrow> (docs, json_reply 404 ''User was not found.'')
      | Inr (Some user) \<Rightarrow>
          (case update e (user\<lparr>authentication_key := None\<rparr>) docs of
             Inl err \<Rightarrow> (docs, json_reply 500 ''Failed to logout user.'')
           | Inr (docs', result) \<Rightarrow> (docs', json_reply 200 ''User has been logged out.'')))"

text \<open>
  \<^verbatim>\<open>registerUser\<close> answers only \<^verbatim>\<open>if (result)\<close>; the InsertOneResult is an
  object, hence truthy.
\<close>

definition registerUser :: "bcrypt \<Rightarrow> env \<Rightarrow> UserObject \<Rightarrow> UserObject list \<Rightarrow> UserObject list \<times> response" where
  "registerUser bc e userData docs =
     (case getByEmail e (email userData) docs of
        Inl err \<Rightarrow> (docs, json_reply 500 ''Registration failed.'')
      | Inr (Some userAlreadyExists) \<Rightarrow>
          (docs, json_reply 409 ''The provided email address is already associated with another account.'')
      | Inr None \<Rightarrow>
          (let hashedPassword = bcrypt_hashSync bc (password userData);
               newUser = \<lparr>doc_id = None, email = email userData, password = hashedPassword,
                          role = Student, authentication_key = None,
                          creation_date = Some (now e), last_login = None\<rparr>
           in case create e newUser docs of
                Inl err \<Rightarrow> (docs, json_reply 500 ''Registration failed.'')
              | Inr (docs', result) \<Rightarrow> (docs', json_reply 200 ''Registration successful.'')))"

section \<open>controllers/users.ts\<close>

text \<open>
  \<^verbatim>\<open>PUT /users/:id\<close>. The path parameter is \<open>None\<close> when \<^verbatim>\<open>new ObjectId(userId)\<close>
  throws on it; the handler then sends nothing. With \<^verbatim>\<open>matchedCount === 0\<close> the
  handler sends 404 and goes on to a second send, which Express refuses: the client has
  the 404. Of the UpdateResult in the 200 body only \<^verbatim>\<open>matchedCount\<close> is kept.
\<close>

definition updateUserById :: "bcrypt \<Rightarrow> env \<Rightarrow> nat option \<Rightarrow> UserObject \<Rightarrow> UserObject list \<Rightarrow> UserObject list \<times> response option" where
  "updateUserById bc e userId req_body docs =
     (let userData =
            (if password req_body \<noteq> [] \<and> \<not> prefix ''$2a'' (password req_body)
             then req_body\<lparr>password := bcrypt_hash bc (password req_body) 10\<rparr>
             else req_body)
      in case userId of
           None \<Rightarrow> (docs, None)
         | Some objectId \<Rightarrow>
             (case updateUser e objectId userData docs of
                Inl err \<Rightarrow> (docs, Some (json_reply 500 ''Failed to update the entire user''))
              | Inr (docs', matchedCount) \<Rightarrow>
                  (docs',
                   Some (if matchedCount = 0 then json_reply 404 ''User not found''
                         else \<lparr>status = 200,
                               body = [(''status'', Num 200),
                                       (''message'', Str ''Successfully updated the entire user''),
                                       (''user'', Obj [(''matchedCount'', Num matchedCount)])]\<rparr>))))"

section \<open>Store invariant and fixtures\<close>

text \<open>Every stored document has an \<^verbatim>\<open>_id\<close>, and no two share one.\<close>

definition wf_store :: "UserObject list \<Rightarrow> bool" where
  "wf_store docs = (distinct (map doc_id docs) \<and> None \<notin> set (map doc_id docs))"

text \<open>
  What the code relies on \<^verbatim>\<open>uuid4()\<close> for: a non-empty key that no stored
  record holds.
\<close>

definition fresh_key :: "string \<Rightarrow> UserObject list \<Rightarrow> bool" where
  "fresh_key k docs = (k \<noteq> [] \<and> find (\<lambda>d. authentication_key d = Some k) docs = None)"

text \<open>A stand-in for bcrypt, and a store with a teacher and a student, for concrete runs.\<close>

definition toy_bcrypt :: bcrypt where
  "toy_bcrypt = \<lparr>bcrypt_hashSync = (\<lambda>p. ''$2a$'' @ p),
                 bcrypt_hash = (\<lambda>p rounds. ''$2a$'' @ p),
                 bcrypt_compare = (\<lambda>p h. h = ''$2a$'' @ p)\<rparr>"

definition env0 :: env where
  "env0 = \<lparr>find_fails = False, write_fails = False, uuid4 = ''k1'', now = 1000, new_id = 7\<rparr>"

definition alice :: UserObject where
  "alice = \<lparr>doc_id = Some 1, email = ''alice@test.com'', password = ''$2a$abc123'',
            role = Teacher, authentication_key = Some ''k0'',
            creation_date = Some 10, last_login = Some 20\<rparr>"

definition bob :: UserObject where
  "bob = \<lparr>doc_id = Some 2, email = ''bob@test.com'', password = ''$2a$hunter2'',
          role = Student, authentication_key = None,
          creation_date = Some 11, last_login = None\<rparr>"

definition store0 :: "UserObject list" where
  "store0 = [alice, bob]"

definition env1 :: env where
  "env1 = \<lparr>find_fails = False, write_fails = False, uuid4 = ''k2'', now = 2000, new_id = 8\<rparr>"

definition alice_login :: LoginRequestBody where
  "alice_login = \<lparr>l_email = ''alice@test.com'', l_password = ''abc123''\<rparr>"

definition store1 :: "UserObject list" where
  "store1 = [alice\<lparr>authentication_key := Some ''k1'', last_login := Some 1000\<rparr>, bob]"

definition store2 :: "UserObject list" where
  "store2 = [alice\<lparr>authentication_key := Some ''k2'', last_login := Some 2000\<rparr>, bob]"

definition login_reply :: "string \<Rightarrow> response" where
  "login_reply key = \<lparr>status = 200,
                       body = [(''status'', Num 200), (''message'', Str ''User logged in''),
                               (''authenticationKey'', Str key)]\<rparr>"

lemmas store_defs = getByEmail_def getByAuthenticationKey_def findOne_def update_def updateUser_def
  create_def replaceOne_def insertOne_def ObjectId_def json_reply_def

lemmas fixture_defs = toy_bcrypt_def env0_def env1_def alice_def bob_def store0_def
  alice_login_def store1_def store2_def login_reply_def

section \<open>Replacing a document\<close>

lemma find_key_replace_first:
  "find (\<lambda>d. doc_id d = Some k) docs \<noteq> None \<Longrightarrow>
   find (\<lambda>d. authentication_key d = Some t) docs = None \<Longrightarrow>
   authentication_key new = Some t \<Longrightarrow>
   find (\<lambda>d. authentication_key d = Some t) (replace_first k new docs) = Some (new\<lparr>doc_id := Some k\<rparr>)"
  by (induction docs) (auto split: if_splits)


lemma find_id_replace_first:
  "find (\<lambda>d. doc_id d = Some k) docs \<noteq> None \<Longrightarrow>
   find (\<lambda>d. doc_id d = Some k) (replace_first k new docs) = Some (new\<lparr>doc_id := Some k\<rparr>)"
  by (induction docs) (auto split: if_splits)



text \<open>With unique identifiers, replacing the first match touches the one match.\<close>

lemma replace_first_map:
  "distinct (map doc_id docs) \<Longrightarrow>
   replace_first k new docs = map (\<lambda>d. if doc_id d = Some k then new\<lparr>doc_id := Some k\<rparr> else d) docs"
proof (induction docs)
  case Nil
  then show ?case by simp
next
  case (Cons d ds)
  show ?case
  proof (cases "doc_id d = Some k")
    case True
    with Cons.prems have "\<forall>x\<in>set ds. doc_id x \<noteq> Some k" by force
    then have "map (\<lambda>d. if doc_id d = Some k then new\<lparr>doc_id := Some k\<rparr> else d) ds = ds"
      by (induction ds) auto
    with True show ?thesis by simp
  next
    case False
    with Cons show ?thesis by simp
  qed
qed

lemma find_in_wf_store:
  "wf_store docs \<Longrightarrow> find p docs = Some u \<Longrightarrow>
   \<exists>k. doc_id u = Some k \<and> find (\<lambda>d. doc_id d = Some k) docs \<noteq> None"
  unfolding wf_store_def
  by (induction docs) (auto split: if_splits)

text \<open>\<^verbatim>\<open>insertOne\<close> keeps the store invariant.\<close>

lemma insertOne_wf_store:
  "wf_store docs \<Longrightarrow> insertOne e doc docs = Inr (docs', k) \<Longrightarrow> wf_store docs'"
  by (auto simp: wf_store_def insertOne_def split: if_splits)

lemma replace_first_ids: "map doc_id (replace_first k new docs) = map doc_id docs"
  by (induction docs) auto

lemma replace_first_wf_store: "wf_store (replace_first k new docs) = wf_store docs"
  by (simp only: wf_store_def replace_first_ids)

lemma replaceOne_wf_store:
  "wf_store docs \<Longrightarrow> replaceOne e k new docs = Inr (docs', n) \<Longrightarrow> wf_store docs'"
  by (auto simp: replaceOne_def replace_first_wf_store split: if_splits)

section \<open>What a successful login is\<close>

lemma loginUser_ok:
  assumes "loginUser bc e (Some cred) docs = (docs', r)" and "status r = 200"
  shows "\<exists>u. \<not> find_fails e \<and> \<not> write_fails e
            \<and> find (\<lambda>d. email d = l_email cred) docs = Some u
            \<and> bcrypt_compare bc (l_password cred) (password u)
            \<and> docs' = replace_first (ObjectId e (doc_id u))
                        (u\<lparr>authentication_key := Some (uuid4 e), last_login := Some (now e),
                           doc_id := None\<rparr>) docs
            \<and> r = \<lparr>status = 200,
                    body = [(''status'', Num 200), (''message'', Str ''User logged in''),
                            (''authenticationKey'', Str (uuid4 e))]\<rparr>"
  using assms
  by (auto simp: loginUser_def getByEmail_def findOne_def update_def replaceOne_def json_reply_def
           split: if_splits sum.splits option.splits)

section \<open>The controllers keep the store invariant\<close>

lemma update_wf_store:
  "wf_store docs \<Longrightarrow> update e user docs = Inr (docs', n) \<Longrightarrow> wf_store docs'"
  unfolding update_def by (rule replaceOne_wf_store)

lemma loginUser_wf_store:
  assumes "wf_store docs" shows "wf_store (fst (loginUser bc e b docs))"
  using assms update_wf_store [OF assms]
  by (simp add: loginUser_def split: option.split sum.split prod.split)

lemma logoutUser_wf_store:
  assumes "wf_store docs" shows "wf_store (fst (logoutUser e t docs))"
  using assms update_wf_store [OF assms]
  by (simp add: logoutUser_def split: option.split sum.split prod.split)

lemma registerUser_wf_store:
  assumes "wf_store docs" shows "wf_store (fst (registerUser bc e b docs))"
  using assms insertOne_wf_store [OF assms]
  by (simp add: registerUser_def create_def split: option.split sum.split prod.split)

section \<open>What a successful logout is\<close>

lemma find_key_cleared:
  "distinct (map doc_id docs) \<Longrightarrow>
   find (\<lambda>d. authentication_key d = Some t) docs = Some u \<Longrightarrow> doc_id u = Some k \<Longrightarrow>
   length (filter (\<lambda>d. authentication_key d = Some t) docs) \<le> 1 \<Longrightarrow>
   authentication_key new \<noteq> Some t \<Longrightarrow>
   find (\<lambda>d. authentication_key d = Some t) (replace_first k new docs) = None"
proof (induction docs)
  case Nil
  then show ?case by simp
next
  case (Cons d ds)
  show ?case
  proof (cases "authentication_key d = Some t")
    case True
    with Cons.prems have du: "d = u" and "filter (\<lambda>d. authentication_key d = Some t) ds = []"
      by simp_all
    then have "find (\<lambda>d. authentication_key d = Some t) ds = None"
      by (simp add: find_None_iff filter_empty_conv)
    with Cons.prems(3,5) du show ?thesis by simp
  next
    case False
    with Cons.prems have fu: "find (\<lambda>d. authentication_key d = Some t) ds = Some u"
      by simp
    then have "u \<in> set ds" by (auto simp: find_Some_iff)
    with Cons.prems(1,3) have "doc_id d \<noteq> Some k"
      by (metis distinct.simps(2) image_eqI list.simps(9) list.set_map)
    with Cons.IH [OF _ fu Cons.prems(3) _ Cons.prems(5)] Cons.prems(1,4) False
    show ?thesis by simp
  qed
qed

lemma logoutUser_ok:
  assumes "logoutUser e t docs = (docs', r)" and "status r = 200"
  shows "\<exists>u. find (\<lambda>d. authentication_key d = Some t) docs = Some u
           \<and> docs' = replace_first (ObjectId e (doc_id u))
                        (u\<lparr>authentication_key := None, doc_id := None\<rparr>) docs"
proof (cases "getByAuthenticationKey e t docs")
  case (Inl err)
  with assms show ?thesis by (auto simp add: logoutUser_def json_reply_def)
next
  case (Inr found)
  show ?thesis
  proof (cases found)
    case None
    with Inr assms show ?thesis by (auto simp add: logoutUser_def json_reply_def)
  next
    case (Some u)
    with Inr have fu: "find (\<lambda>d. authentication_key d = Some t) docs = Some u"
      by (simp add: getByAuthenticationKey_def findOne_def split: if_splits)
    from assms Inr Some have "docs' = replace_first (ObjectId e (doc_id u))
                        (u\<lparr>authentication_key := None, doc_id := None\<rparr>) docs"
      by (auto simp add: logoutUser_def update_def replaceOne_def json_reply_def split: if_splits)
    with fu show ?thesis by simp
  qed
qed

text \<open>
  After a logout that answers 200, when at most one record held the key, no record holds
  it, and the guard does not proceed on it.
\<close>

lemma logout_then_auth_rejects:
  assumes "wf_store docs"
    and "length (filter (\<lambda>d. authentication_key d = Some t) docs) \<le> 1"
    and "logoutUser e t docs = (docs', r)" and "status r = 200"
  shows "find (\<lambda>d. authentication_key d = Some t) docs' = None
       \<and> auth allowed_roles e' (Some t) docs' \<noteq> Next"
proof -
  from logoutUser_ok [OF assms(3,4)] obtain u where
    fu: "find (\<lambda>d. authentication_key d = Some t) docs = Some u"
    and d': "docs' = replace_first (ObjectId e (doc_id u))
               (u\<lparr>authentication_key := None, doc_id := None\<rparr>) docs"
    by blast
  from find_in_wf_store [OF assms(1) fu] obtain k where k: "doc_id u = Some k" by blast
  from assms(1) have dist: "distinct (map doc_id docs)" by (simp add: wf_store_def)
  have "find (\<lambda>d. authentication_key d = Some t) docs' = None"
    unfolding d' using k by (simp add: ObjectId_def find_key_cleared [OF dist fu k assms(2)])
  then show ?thesis
    by (simp add: auth_def getByAuthenticationKey_def findOne_def)
qed

section \<open>Concrete runs\<close>

lemma wf_store0: "wf_store store0"
  by (simp add: wf_store_def fixture_defs)

lemma first_login: "loginUser toy_bcrypt env0 (Some alice_login) store0 = (store1, login_reply ''k1'')"
  by (simp add: loginUser_def store_defs fixture_defs)


section \<open>The access guard and the authenticator\<close>

text \<open>
  Claim C1. A request to a protected route carries a key that no user record holds; the
  lookup succeeds and returns no user. The guard does not call the downstream handler,
  and it answers 403 "Access forbidden": the answer 401 "Authentication key invalid" is
  sent only when the lookup itself rejects. Run on the store of Alice (key \<open>k0\<close>) and
  Bob (no key), for a route open to teachers.
\<close>

theorem auth_unresolved_key_forbidden:
  "getByAuthenticationKey env0 ''stale'' store0 = Inr None \<and>
   auth [Teacher] env0 (Some ''stale'') store0 =
     Respond \<lparr>status = 403, body = [(''status'', Num 403), (''message'', Str ''Access forbidden'')]\<rparr>"
  by (simp add: auth_def store_defs fixture_defs)

text \<open>
  Claim C2. A stored user logs in with the email and a password that bcrypt accepts, the
  store has unique identifiers, the write goes through and \<^verbatim>\<open>uuid4\<close> returns a key
  that no record holds. Then the login answers 200 with that key, and the guard, asked
  next with that key (its lookup not failing), proceeds if and only if the user's stored
  role is among the allowed roles; otherwise it answers 403 "Access forbidden".
\<close>

theorem login_then_authorize:
  assumes "wf_store docs"
    and "getByEmail e m docs = Inr (Some u)"
    and "bcrypt_compare bc p (password u)"
    and "\<not> write_fails e"
    and "fresh_key (uuid4 e) docs"
    and "\<not> find_fails e'"
  shows "snd (loginUser bc e (Some \<lparr>l_email = m, l_password = p\<rparr>) docs)
           = \<lparr>status = 200,
              body = [(''status'', Num 200), (''message'', Str ''User logged in''),
                      (''authenticationKey'', Str (uuid4 e))]\<rparr>
       \<and> (auth allowed_roles e' (Some (uuid4 e))
              (fst (loginUser bc e (Some \<lparr>l_email = m, l_password = p\<rparr>) docs)) = Next
            \<longleftrightarrow> role u \<in> set allowed_roles)
       \<and> (role u \<notin> set allowed_roles \<longrightarrow>
            auth allowed_roles e' (Some (uuid4 e))
              (fst (loginUser bc e (Some \<lparr>l_email = m, l_password = p\<rparr>) docs))
            = Respond \<lparr>status = 403,
                       body = [(''status'', Num 403), (''message'', Str ''Access forbidden'')]\<rparr>)"
proof -
  from assms(2) have nf: "\<not> find_fails e" and fu: "find (\<lambda>d. email d = m) docs = Some u"
    by (auto simp: getByEmail_def findOne_def split: if_splits)
  from find_in_wf_store [OF assms(1) fu] obtain k
    where k: "doc_id u = Some k" and fk: "find (\<lambda>d. doc_id d = Some k) docs \<noteq> None"
    by blast
  let ?u' = "u\<lparr>authentication_key := Some (uuid4 e), last_login := Some (now e), doc_id := None\<rparr>"
  have login: "loginUser bc e (Some \<lparr>l_email = m, l_password = p\<rparr>) docs
      = (replace_first k ?u' docs,
         \<lparr>status = 200,
          body = [(''status'', Num 200), (''message'', Str ''User logged in''),
                  (''authenticationKey'', Str (uuid4 e))]\<rparr>)"
    using assms(2,3,4) k by (simp add: loginUser_def update_def replaceOne_def ObjectId_def)
  from assms(5) have ne: "uuid4 e \<noteq> []"
    and fr: "find (\<lambda>d. authentication_key d = Some (uuid4 e)) docs = None"
    by (simp_all add: fresh_key_def)
  have "find (\<lambda>d. authentication_key d = Some (uuid4 e)) (replace_first k ?u' docs)
          = Some (?u'\<lparr>doc_id := Some k\<rparr>)"
    by (rule find_key_replace_first [OF fk fr]) simp
  then have "auth allowed_roles e' (Some (uuid4 e)) (replace_first k ?u' docs)
      = (if role u \<in> set allowed_roles then Next else Respond (json_reply 403 ''Access forbidden''))"
    using ne assms(6) by (simp add: auth_def getByAuthenticationKey_def findOne_def)
  with login show ?thesis by (simp add: json_reply_def)
qed

theorem login_then_authorize_witness:
  "wf_store store0 \<and> getByEmail env0 ''alice@test.com'' store0 = Inr (Some alice)
   \<and> bcrypt_compare toy_bcrypt ''abc123'' (password alice) \<and> \<not> write_fails env0
   \<and> fresh_key (uuid4 env0) store0 \<and> \<not> find_fails env1
   \<and> auth [Teacher, Sensor] env1 (Some ''k1'') store1 = Next
   \<and> auth [Student] env1 (Some ''k1'') store1 = Respond (json_reply 403 ''Access forbidden'')"
proof -
  have a: "getByEmail env0 ''alice@test.com'' store0 = Inr (Some alice)"
    by (simp add: store_defs fixture_defs)
  have b: "bcrypt_compare toy_bcrypt ''abc123'' (password alice)"
    by (simp add: fixture_defs)
  have c: "\<not> write_fails env0" by (simp add: env0_def)
  have d: "fresh_key (uuid4 env0) store0" by (simp add: fresh_key_def fixture_defs)
  have f: "\<not> find_fails env1" by (simp add: env1_def)
  have t: "role alice \<in> set [Teacher, Sensor]" and s: "role alice \<notin> set [Student]"
    by (simp_all add: alice_def)
  have k: "uuid4 env0 = ''k1''" by (simp add: env0_def)
  from login_then_authorize [OF wf_store0 a b c d f, of "[Teacher, Sensor]"]
       login_then_authorize [OF wf_store0 a b c d f, of "[Student]"]
       first_login [unfolded alice_login_def] t s k wf_store0 a b c d f
  show ?thesis by (simp add: json_reply_def)
qed

text \<open>
  Claim C3. Alice logs out with her key \<open>k0\<close>: the logout answers 200 and clears the key
  on her record. The guard, asked next with \<open>k0\<close>, does not proceed (in general:
  \<open>logout_then_auth_rejects\<close>), and it answers 403 "Access forbidden", not 401: the
  key now resolves to no user, the case of C1.
\<close>

theorem logout_then_auth_forbidden:
  "logoutUser env0 ''k0'' store0 =
     ([alice\<lparr>authentication_key := None\<rparr>, bob], json_reply 200 ''User has been logged out.'') \<and>
   auth [Teacher] env0 (Some ''k0'') (fst (logoutUser env0 ''k0'' store0)) =
     Respond \<lparr>status = 403, body = [(''status'', Num 403), (''message'', Str ''Access forbidden'')]\<rparr>"
  by (simp add: auth_def logoutUser_def store_defs fixture_defs)




text \<open>
  Claim C5, as stated, at a concrete input: a login with an email that is not in the
  store and a login with Alice's email and a wrong password do not get the same answer.
\<close>

theorem login_error_counterexample:
  "snd (loginUser toy_bcrypt env0 (Some \<lparr>l_email = ''nobody@test.com'', l_password = ''abc123''\<rparr>) store0)
   \<noteq> snd (loginUser toy_bcrypt env0 (Some \<lparr>l_email = ''alice@test.com'', l_password = ''wrong''\<rparr>) store0)"
  by (simp add: loginUser_def store_defs fixture_defs)

text \<open>
  Claim C5, amended. A login whose email is absent from the store and a login whose
  email is present but whose password bcrypt refuses both leave the store as it is and
  both answer with status 401 and a body of the two fields \<open>status\<close> and \<open>message\<close>;
  the message is "Invalid credentials" for the absent email and "Invalid password" for
  the wrong password.
\<close>

theorem login_errors_same_status_other_message:
  assumes "getByEmail e1 m1 docs1 = Inr None"
    and "getByEmail e2 m2 docs2 = Inr (Some u)"
    and "\<not> bcrypt_compare bc p2 (password u)"
  shows "loginUser bc e1 (Some \<lparr>l_email = m1, l_password = p1\<rparr>) docs1
           = (docs1, \<lparr>status = 401,
                      body = [(''status'', Num 401), (''message'', Str ''Invalid credentials'')]\<rparr>)
       \<and> loginUser bc e2 (Some \<lparr>l_email = m2, l_password = p2\<rparr>) docs2
           = (docs2, \<lparr>status = 401,
                      body = [(''status'', Num 401), (''message'', Str ''Invalid password'')]\<rparr>)"
  using assms by (simp add: loginUser_def json_reply_def)

theorem login_errors_same_status_other_message_witness:
  "getByEmail env0 ''nobody@test.com'' store0 = Inr None \<and>
   getByEmail env0 ''alice@test.com'' store0 = Inr (Some alice) \<and>
   \<not> bcrypt_compare toy_bcrypt ''wrong'' (password alice) \<and>
   loginUser toy_bcrypt env0 (Some \<lparr>l_email = ''nobody@test.com'', l_password = ''abc123''\<rparr>) store0
     = (store0, \<lparr>status = 401,
                 body = [(''status'', Num 401), (''message'', Str ''Invalid credentials'')]\<rparr>) \<and>
   loginUser toy_bcrypt env0 (Some \<lparr>l_email = ''alice@test.com'', l_password = ''wrong''\<rparr>) store0
     = (store0, \<lparr>status = 401,
                 body = [(''status'', Num 401), (''message'', Str ''Invalid password'')]\<rparr>)"
proof -
  have a: "getByEmail env0 ''nobody@test.com'' store0 = Inr None"
    by (simp add: store_defs fixture_defs)
  have b: "getByEmail env0 ''alice@test.com'' store0 = Inr (Some alice)"
    by (simp add: store_defs fixture_defs)
  have c: "\<not> bcrypt_compare toy_bcrypt ''wrong'' (password alice)"
    by (simp add: fixture_defs)
  from login_errors_same_status_other_message [OF a b c, of "''abc123''"] a b c
  show ?thesis by simp
qed

text \<open>
  Claim C6. When the lookup by the request's email returns an existing record, the
  registration answers 409 with the conflict message and the store is the one it was:
  no record is changed and none is added.
\<close>

theorem register_existing_email_conflict:
  assumes "getByEmail e (email userData) docs = Inr (Some existing)"
  shows "registerUser bc e userData docs =
           (docs, \<lparr>status = 409,
                   body = [(''status'', Num 409),
                           (''message'', Str ''The provided email address is already associated with another account.'')]\<rparr>)"
  using assms by (simp add: registerUser_def json_reply_def)

theorem register_existing_email_conflict_witness:
  "getByEmail env0 (email (bob\<lparr>password := ''pw'', role := Teacher\<rparr>)) store0 = Inr (Some bob) \<and>
   registerUser toy_bcrypt env0 (bob\<lparr>password := ''pw'', role := Teacher\<rparr>) store0 =
           (store0, \<lparr>status = 409,
                   body = [(''status'', Num 409),
                           (''message'', Str ''The provided email address is already associated with another account.'')]\<rparr>)"
proof -
  have a: "getByEmail env0 (email (bob\<lparr>password := ''pw'', role := Teacher\<rparr>)) store0 = Inr (Some bob)"
    by (simp add: store_defs fixture_defs)
  from register_existing_email_conflict [OF a, of toy_bcrypt] a show ?thesis by simp
qed

text \<open>
  Claim C7. After a registration that answers 200, the store is the old store followed
  by one new record: the request's email, the bcrypt hash of the request's password, the
  role \<open>Student\<close> whatever role the request carried, no authentication key, the clock's
  time as creation date, and no last login.
\<close>

theorem register_success_record:
  assumes "registerUser bc e userData docs = (docs', r)" and "status r = 200"
  shows "docs' = docs @ [\<lparr>doc_id = Some (new_id e), email = email userData,
                          password = bcrypt_hashSync bc (password userData),
                          role = Student, authentication_key = None,
                          creation_date = Some (now e), last_login = None\<rparr>]"
  using assms
  by (auto simp: registerUser_def store_defs Let_def split: sum.splits option.splits if_splits)

theorem register_success_record_witness:
  "registerUser toy_bcrypt env0
     \<lparr>doc_id = None, email = ''a@test.com'', password = ''abc123'', role = Teacher,
      authentication_key = Some ''mine'', creation_date = None, last_login = None\<rparr> store0
     = (store0 @ [\<lparr>doc_id = Some 7, email = ''a@test.com'', password = ''$2a$abc123'',
                    role = Student, authentication_key = None,
                    creation_date = Some 1000, last_login = None\<rparr>],
        json_reply 200 ''Registration successful.'')
   \<and> status (json_reply 200 ''Registration successful.'') = 200
   \<and> store0 @ [\<lparr>doc_id = Some 7, email = ''a@test.com'', password = ''$2a$abc123'',
                  role = Student, authentication_key = None,
                  creation_date = Some 1000, last_login = None\<rparr>]
     = store0 @ [\<lparr>doc_id = Some (new_id env0), email = ''a@test.com'',
                  password = bcrypt_hashSync toy_bcrypt ''abc123'',
                  role = Student, authentication_key = None,
                  creation_date = Some (now env0), last_login = None\<rparr>]"
proof -
  have a: "registerUser toy_bcrypt env0
     \<lparr>doc_id = None, email = ''a@test.com'', password = ''abc123'', role = Teacher,
      authentication_key = Some ''mine'', creation_date = None, last_login = None\<rparr> store0
     = (store0 @ [\<lparr>doc_id = Some 7, email = ''a@test.com'', password = ''$2a$abc123'',
                    role = Student, authentication_key = None,
                    creation_date = Some 1000, last_login = None\<rparr>],
        json_reply 200 ''Registration successful.'')"
    by (simp add: registerUser_def store_defs fixture_defs)
  have b: "status (json_reply 200 ''Registration successful.'') = 200"
    by (simp add: json_reply_def)
  from register_success_record [OF a b] a b show ?thesis by simp
qed

text \<open>
  Claim C8, as stated, at a concrete input: the lookup rejects for a request that
  carries Alice's valid key, and the guard answers 401 "Authentication key invalid",
  which is not an internal-error answer.
\<close>

theorem auth_store_failure_counterexample:
  "auth [Teacher] (env0\<lparr>find_fails := True\<rparr>) (Some ''k0'') store0 =
     Respond \<lparr>status = 401,
              body = [(''status'', Num 401), (''message'', Str ''Authentication key invalid'')]\<rparr>"
  by (simp add: auth_def store_defs fixture_defs)

text \<open>
  Claim C8, amended. When the lookup by the presented key rejects, the guard answers
  401 "Authentication key invalid" and does not call the downstream handler.
\<close>

theorem auth_store_failure_rejects:
  assumes "find_fails e" and "key \<noteq> []"
  shows "auth allowed_roles e (Some key) docs = Respond (json_reply 401 ''Authentication key invalid'')
         \<and> auth allowed_roles e (Some key) docs \<noteq> Next"
  using assms by (simp add: auth_def getByAuthenticationKey_def findOne_def)

theorem auth_store_failure_rejects_witness:
  "find_fails (env0\<lparr>find_fails := True\<rparr>) \<and> ''k0'' \<noteq> [] \<and>
   auth [Teacher] (env0\<lparr>find_fails := True\<rparr>) (Some ''k0'') store0
     = Respond (json_reply 401 ''Authentication key invalid'') \<and>
   auth [Teacher] (env0\<lparr>find_fails := True\<rparr>) (Some ''k0'') store0 \<noteq> Next"
  using auth_store_failure_rejects [of "env0\<lparr>find_fails := True\<rparr>" "''k0''" "[Teacher]" store0]
  by (simp add: env0_def)

text \<open>
  Claim C9. After a login that answers 200, on a store with unique identifiers, the store
  is the old one with the record of the user found by email replaced by the same record
  with a new authentication key and a new last login. Record by record, the identifier,
  email, password hash, role and creation date are the ones before the login.
\<close>

theorem login_frame:
  assumes "wf_store docs"
    and "getByEmail e (l_email cred) docs = Inr (Some u)"
    and "loginUser bc e (Some cred) docs = (docs', r)"
    and "status r = 200"
  shows "docs' = map (\<lambda>d. if doc_id d = doc_id u
                             then u\<lparr>authentication_key := Some (uuid4 e), last_login := Some (now e)\<rparr>
                             else d) docs
       \<and> list_all2 (\<lambda>d d'. doc_id d' = doc_id d \<and> email d' = email d \<and> password d' = password d
                             \<and> role d' = role d \<and> creation_date d' = creation_date d) docs docs'"
proof -
  from assms(2) have fu: "find (\<lambda>d. email d = l_email cred) docs = Some u"
    by (auto simp: getByEmail_def findOne_def split: if_splits)
  from loginUser_ok [OF assms(3,4)] fu
  have d': "docs' = replace_first (ObjectId e (doc_id u))
              (u\<lparr>authentication_key := Some (uuid4 e), last_login := Some (now e),
                 doc_id := None\<rparr>) docs"
    by auto
  from find_in_wf_store [OF assms(1) fu] obtain k where k: "doc_id u = Some k" by blast
  from assms(1) have dist: "distinct (map doc_id docs)" by (simp add: wf_store_def)
  from fu have uin: "u \<in> set docs" by (auto simp: find_Some_iff)
  have same: "\<And>d. d \<in> set docs \<Longrightarrow> doc_id d = Some k \<Longrightarrow> d = u"
    using dist uin k by (metis distinct_map inj_onD)
  have m: "docs' = map (\<lambda>d. if doc_id d = doc_id u
                              then u\<lparr>authentication_key := Some (uuid4 e), last_login := Some (now e)\<rparr>
                              else d) docs"
    unfolding d' using k by (simp add: replace_first_map [OF dist] ObjectId_def)
  have "list_all2 (\<lambda>d d'. doc_id d' = doc_id d \<and> email d' = email d \<and> password d' = password d
                           \<and> role d' = role d \<and> creation_date d' = creation_date d) docs docs'"
    unfolding m list_all2_map2 using same k by (auto simp: list.rel_refl_strong)
  with m show ?thesis by simp
qed

theorem login_frame_witness:
  "wf_store store0 \<and> getByEmail env0 (l_email alice_login) store0 = Inr (Some alice)
   \<and> loginUser toy_bcrypt env0 (Some alice_login) store0 = (store1, login_reply ''k1'')
   \<and> status (login_reply ''k1'') = 200
   \<and> store1 = map (\<lambda>d. if doc_id d = doc_id alice
                         then alice\<lparr>authentication_key := Some (uuid4 env0), last_login := Some (now env0)\<rparr>
                         else d) store0
   \<and> list_all2 (\<lambda>d d'. doc_id d' = doc_id d \<and> email d' = email d \<and> password d' = password d
                         \<and> role d' = role d \<and> creation_date d' = creation_date d) store0 store1"
proof -
  have a: "getByEmail env0 (l_email alice_login) store0 = Inr (Some alice)"
    by (simp add: store_defs fixture_defs)
  have b: "status (login_reply ''k1'') = 200" by (simp add: login_reply_def)
  from login_frame [OF wf_store0 a first_login b] wf_store0 a first_login b
  show ?thesis by simp
qed

text \<open>
  Claim C10. \<^verbatim>\<open>PUT /users/:id\<close> on an identifier the store has, the write going
  through: the record stored under that identifier is the request body, with the password
  replaced by its bcrypt hash (10 rounds) when the password is non-empty and does not
  start with \<^verbatim>\<open>$2a\<close>, and with the password as supplied when it is empty or starts
  with \<^verbatim>\<open>$2a\<close>, plaintext or not.
\<close>

theorem update_password_hashing:
  assumes "\<not> write_fails e" and "find (\<lambda>d. doc_id d = Some k) docs \<noteq> None"
  shows "(password req \<noteq> [] \<and> \<not> prefix ''$2a'' (password req) \<longrightarrow>
            find (\<lambda>d. doc_id d = Some k) (fst (updateUserById bc e (Some k) req docs))
              = Some (req\<lparr>doc_id := Some k, password := bcrypt_hash bc (password req) 10\<rparr>))
       \<and> (password req = [] \<or> prefix ''$2a'' (password req) \<longrightarrow>
            find (\<lambda>d. doc_id d = Some k) (fst (updateUserById bc e (Some k) req docs))
              = Some (req\<lparr>doc_id := Some k\<rparr>))"
  using assms find_id_replace_first [OF assms(2)]
  by (simp add: updateUserById_def updateUser_def replaceOne_def)

theorem update_password_hashing_witness:
  "\<not> write_fails env0 \<and> find (\<lambda>d. doc_id d = Some 2) store0 \<noteq> None
   \<and> find (\<lambda>d. doc_id d = Some 2)
        (fst (updateUserById toy_bcrypt env0 (Some 2) (bob\<lparr>password := ''$2a-plain''\<rparr>) store0))
       = Some (bob\<lparr>password := ''$2a-plain''\<rparr>)
   \<and> find (\<lambda>d. doc_id d = Some 2)
        (fst (updateUserById toy_bcrypt env0 (Some 2) (bob\<lparr>password := ''plain''\<rparr>) store0))
       = Some (bob\<lparr>password := ''$2a$plain''\<rparr>)"
proof -
  have a: "\<not> write_fails env0" by (simp add: env0_def)
  have b: "find (\<lambda>d. doc_id d = Some 2) store0 \<noteq> None" by (simp add: fixture_defs)
  from update_password_hashing [OF a b, of "bob\<lparr>password := ''$2a-plain''\<rparr>" toy_bcrypt]
       update_password_hashing [OF a b, of "bob\<lparr>password := ''plain''\<rparr>" toy_bcrypt] a b
  show ?thesis by (simp add: fixture_defs)
qed

end
